theory Spec2Isabelle
  imports Complex_Main
begin

section \<open>Python strings\<close>

text \<open>
  The program (\<^verbatim>\<open>Graham.py\<close>) reads texts scraped from web pages and turns them into
  \<^verbatim>\<open>decimal.Decimal\<close> numbers. A text is modelled as a list of 8-bit characters
  (the Latin-1 range of Python's \<^verbatim>\<open>str\<close>). \<^verbatim>\<open>str.strip()\<close> removes the
  characters for which \<^verbatim>\<open>str.isspace\<close> holds; in this range they are the codes
  9 to 13, 28 to 32, 133 and 160.
\<close>

definition is_py_space :: "char \<Rightarrow> bool" where
  "is_py_space c = (of_char c \<in> set [9, 10, 11, 12, 13, 28, 29, 30, 31, 32, 133, 160 :: nat])"

definition lstrip_with :: "(char \<Rightarrow> bool) \<Rightarrow> string \<Rightarrow> string" where
  "lstrip_with P s = dropWhile P s"

definition strip_with :: "(char \<Rightarrow> bool) \<Rightarrow> string \<Rightarrow> string" where
  "strip_with P s = rev (dropWhile P (rev (dropWhile P s)))"

text \<open>\<^verbatim>\<open>s.strip()\<close>\<close>

definition py_strip :: "string \<Rightarrow> string" where
  "py_strip s = strip_with is_py_space s"

text \<open>\<^verbatim>\<open>s.strip(chars)\<close>\<close>

definition py_strip_chars :: "string \<Rightarrow> string \<Rightarrow> string" where
  "py_strip_chars chars s = strip_with (\<lambda>c. c \<in> set chars) s"

text \<open>\<^verbatim>\<open>s.replace(c, '')\<close> for a one-character \<^verbatim>\<open>c\<close>\<close>

definition py_remove :: "char \<Rightarrow> string \<Rightarrow> string" where
  "py_remove c s = filter (\<lambda>x. x \<noteq> c) s"

definition is_digit :: "char \<Rightarrow> bool" where
  "is_digit c = (48 \<le> (of_char c :: nat) \<and> (of_char c :: nat) \<le> 57)"

definition digit_val :: "char \<Rightarrow> nat" where
  "digit_val c = of_char c - 48"

definition digit_char :: "nat \<Rightarrow> char" where
  "digit_char n = char_of (48 + n)"

text \<open>\<^verbatim>\<open>int(s)\<close> for a string of decimal digits (the empty string counts as 0 here;
  the callers never pass it where Python would raise).\<close>

definition int_of_digits :: "string \<Rightarrow> nat" where
  "int_of_digits s = foldl (\<lambda>n c. 10 * n + digit_val c) 0 s"

text \<open>\<^verbatim>\<open>str(n)\<close> for a natural number\<close>

function digits_of :: "nat \<Rightarrow> string" where
  "digits_of n = (if n < 10 then [digit_char n] else digits_of (n div 10) @ [digit_char (n mod 10)])"
  by pat_completeness auto
termination
  by (relation "measure (\<lambda>n. n)") auto

declare digits_of.simps [simp del]

text \<open>\<^verbatim>\<open>len(str(n))\<close>\<close>

definition ndigits :: "nat \<Rightarrow> nat" where
  "ndigits n = length (digits_of n)"

definition to_lower :: "char \<Rightarrow> char" where
  "to_lower c = (if 65 \<le> (of_char c :: nat) \<and> (of_char c :: nat) \<le> 90
                 then char_of (of_char c + 32 :: nat) else c)"

section \<open>The decimal module\<close>

text \<open>
  A \<^verbatim>\<open>Decimal\<close> is a finite number \<open>(-1)^sign * coefficient * 10^exponent\<close>, an infinity,
  or a quiet or signalling NaN with a payload. The program never changes the arithmetic
  context, so every operation runs in the module's default context: 28 significant digits,
  rounding half to even, exponents from -999999 to 999999, and the traps
  \<^verbatim>\<open>InvalidOperation\<close>, \<^verbatim>\<open>DivisionByZero\<close> and \<^verbatim>\<open>Overflow\<close> enabled (a trapped
  signal is raised as an exception). The operations below follow the module's reference
  implementation.
\<close>

datatype decimal =
    Num bool nat int
  | Infinity bool
  | NaN bool bool nat

datatype error = InvalidOperation | DivisionByZero | Overflow | ValueError | TypeError

definition prec :: nat where "prec = 28"
definition Emax :: int where "Emax = 999999"
definition Emin :: int where "Emin = - 999999"
definition Etiny :: int where "Etiny = Emin - int prec + 1"
definition Etop :: int where "Etop = Emax - int prec + 1"

fun is_nan :: "decimal \<Rightarrow> bool" where
  "is_nan (NaN s sig p) = True"
| "is_nan d = False"

fun is_snan :: "decimal \<Rightarrow> bool" where
  "is_snan (NaN s sig p) = sig"
| "is_snan d = False"

fun is_finite :: "decimal \<Rightarrow> bool" where
  "is_finite (Num s c e) = True"
| "is_finite d = False"

text \<open>\<^verbatim>\<open>_round_half_even\<close> applied to the coefficient \<open>c\<close> when its last \<open>k\<close> digits are
  dropped: the kept digits, incremented when the dropped part is above one half, or exactly
  one half with an odd kept part.\<close>

definition round_half_even :: "nat \<Rightarrow> nat \<Rightarrow> nat" where
  "round_half_even c k =
     (let q = c div 10 ^ k; r = c mod 10 ^ k
      in if 2 * r > 10 ^ k \<or> (2 * r = 10 ^ k \<and> odd q) then q + 1 else q)"

text \<open>\<^verbatim>\<open>_fix_nan\<close>: a payload longer than the precision keeps its last 28 digits.\<close>

fun fix_nan :: "decimal \<Rightarrow> decimal" where
  "fix_nan (NaN s sig p) = (if ndigits p > prec \<and> p \<noteq> 0 then NaN s sig (p mod 10 ^ prec) else NaN s sig p)"
| "fix_nan d = d"

text \<open>\<^verbatim>\<open>_fix\<close>: round a result to the context. An exponent above the range raises
  \<^verbatim>\<open>Overflow\<close>; below the range the result is subnormal, rounded at \<open>Etiny\<close>
  (\<^verbatim>\<open>Underflow\<close> is not trapped).\<close>

fun fix_dec :: "decimal \<Rightarrow> error + decimal" where
  "fix_dec (Num s c e) =
     (if c = 0 then Inr (Num s 0 (min (max e Etiny) Emax))
      else
        let exp_min0 = int (ndigits c) + e - int prec in
        if exp_min0 > Etop then Inl Overflow
        else
          let exp_min = (if exp_min0 < Etiny then Etiny else exp_min0) in
          if e < exp_min then
            let coeff = round_half_even c (nat (exp_min - e));
                (coeff', exp_min') = (if ndigits coeff > prec then (coeff div 10, exp_min + 1)
                                      else (coeff, exp_min))
            in if exp_min' > Etop then Inl Overflow else Inr (Num s coeff' exp_min')
          else Inr (Num s c e))"
| "fix_dec d = Inr (fix_nan d)"

text \<open>\<^verbatim>\<open>_check_nans\<close>: a signalling NaN operand raises, otherwise the first quiet NaN
  operand is the result.\<close>

definition nan_result :: "decimal \<Rightarrow> decimal \<Rightarrow> error + decimal" where
  "nan_result a b =
     (if is_snan a \<or> is_snan b then Inl InvalidOperation
      else if is_nan a then Inr (fix_nan a) else Inr (fix_nan b))"

text \<open>\<^verbatim>\<open>__mul__\<close>\<close>

fun dec_mul :: "decimal \<Rightarrow> decimal \<Rightarrow> error + decimal" where
  "dec_mul (Num s c e) (Num t d f) = fix_dec (Num (s \<noteq> t) (c * d) (e + f))"
| "dec_mul (Infinity s) (Num t d f) = (if d = 0 then Inl InvalidOperation else Inr (Infinity (s \<noteq> t)))"
| "dec_mul (Num s c e) (Infinity t) = (if c = 0 then Inl InvalidOperation else Inr (Infinity (s \<noteq> t)))"
| "dec_mul (Infinity s) (Infinity t) = Inr (Infinity (s \<noteq> t))"
| "dec_mul a b = nan_result a b"

text \<open>\<^verbatim>\<open>__add__\<close>: the exact sum at the smaller exponent, then rounded. A zero operand
  is first limited to an exponent close to the other operand's.\<close>

fun dec_add :: "decimal \<Rightarrow> decimal \<Rightarrow> error + decimal" where
  "dec_add (Num s c e) (Num t d f) =
     (let ex = min e f in
      if c = 0 \<and> d = 0 then fix_dec (Num (s \<and> t) 0 ex)
      else if c = 0 then
        (let ex' = max ex (f - int prec - 1) in fix_dec (Num t (d * 10 ^ nat (f - ex')) ex'))
      else if d = 0 then
        (let ex' = max ex (e - int prec - 1) in fix_dec (Num s (c * 10 ^ nat (e - ex')) ex'))
      else
        let x = (if s then - 1 else 1) * int c * 10 ^ nat (e - ex);
            y = (if t then - 1 else 1) * int d * 10 ^ nat (f - ex)
        in fix_dec (Num (x + y < 0) (nat \<bar>x + y\<bar>) ex))"
| "dec_add (Infinity s) (Infinity t) = (if s \<noteq> t then Inl InvalidOperation else Inr (Infinity s))"
| "dec_add (Infinity s) (Num t d f) = Inr (Infinity s)"
| "dec_add (Num s c e) (Infinity t) = Inr (Infinity t)"
| "dec_add a b = nan_result a b"

text \<open>The loop of \<^verbatim>\<open>__truediv__\<close> that moves an exact quotient towards the ideal
  exponent: at most \<open>n\<close> trailing zeros are removed.\<close>

fun strip_zeros :: "nat \<Rightarrow> nat \<Rightarrow> int \<Rightarrow> nat \<times> int" where
  "strip_zeros 0 coeff ex = (coeff, ex)"
| "strip_zeros (Suc n) coeff ex =
     (if coeff mod 10 = 0 then strip_zeros n (coeff div 10) (ex + 1) else (coeff, ex))"

text \<open>\<^verbatim>\<open>__truediv__\<close>\<close>

fun dec_div :: "decimal \<Rightarrow> decimal \<Rightarrow> error + decimal" where
  "dec_div (Num s c e) (Num t d f) =
     (if d = 0 then (if c = 0 then Inl InvalidOperation else Inl DivisionByZero)
      else if c = 0 then fix_dec (Num (s \<noteq> t) 0 (e - f))
      else
        let shift = int (ndigits d) - int (ndigits c) + int prec + 1;
            ex = e - f - shift;
            n = (if shift \<ge> 0 then c * 10 ^ nat shift else c);
            m = (if shift \<ge> 0 then d else d * 10 ^ nat (- shift));
            coeff = n div m;
            remainder = n mod m
        in if remainder \<noteq> 0 then fix_dec (Num (s \<noteq> t) (if coeff mod 5 = 0 then coeff + 1 else coeff) ex)
           else (case strip_zeros (nat (e - f - ex)) coeff ex of
                   (coeff', ex') \<Rightarrow> fix_dec (Num (s \<noteq> t) coeff' ex')))"
| "dec_div (Infinity s) (Infinity t) = Inl InvalidOperation"
| "dec_div (Infinity s) (Num t d f) = Inr (Infinity (s \<noteq> t))"
| "dec_div (Num s c e) (Infinity t) = Inr (Num (s \<noteq> t) 0 Etiny)"
| "dec_div a b = nan_result a b"

text \<open>\<^verbatim>\<open>_cmp\<close> for operands that are not NaN: the sign of the difference.\<close>

fun isinfinity :: "decimal \<Rightarrow> int" where
  "isinfinity (Infinity s) = (if s then - 1 else 1)"
| "isinfinity d = 0"

definition sign_cmp :: "int \<Rightarrow> int \<Rightarrow> int" where
  "sign_cmp x y = (if x < y then - 1 else if x = y then 0 else 1)"

fun dec_cmp :: "decimal \<Rightarrow> decimal \<Rightarrow> int" where
  "dec_cmp (Num s c e) (Num t d f) =
     (let ex = min e f
      in sign_cmp ((if s then - 1 else 1) * int c * 10 ^ nat (e - ex))
                 ((if t then - 1 else 1) * int d * 10 ^ nat (f - ex)))"
| "dec_cmp a b = sign_cmp (isinfinity a) (isinfinity b)"

text \<open>\<^verbatim>\<open>__lt__\<close> and \<^verbatim>\<open>__le__\<close>: an ordering comparison with a NaN raises.\<close>

definition dec_lt :: "decimal \<Rightarrow> decimal \<Rightarrow> error + bool" where
  "dec_lt a b = (if is_nan a \<or> is_nan b then Inl InvalidOperation else Inr (dec_cmp a b < 0))"

definition dec_le :: "decimal \<Rightarrow> decimal \<Rightarrow> error + bool" where
  "dec_le a b = (if is_nan a \<or> is_nan b then Inl InvalidOperation else Inr (dec_cmp a b \<le> 0))"

text \<open>\<^verbatim>\<open>Decimal(n)\<close> for an integer\<close>

definition decimal_of_int :: "int \<Rightarrow> decimal" where
  "decimal_of_int n = Num (n < 0) (nat \<bar>n\<bar>) 0"

subsection \<open>Decimal from a string\<close>

fun split_sign :: "string \<Rightarrow> bool \<times> string" where
  "split_sign [] = (False, [])"
| "split_sign (c # cs) =
     (if c = CHR ''-'' then (True, cs) else if c = CHR ''+'' then (False, cs) else (False, c # cs))"

definition parse_exponent :: "string \<Rightarrow> int option" where
  "parse_exponent s =
     (case split_sign s of (neg, ds) \<Rightarrow>
        if ds \<noteq> [] \<and> list_all is_digit ds
        then Some (if neg then - int (int_of_digits ds) else int (int_of_digits ds))
        else None)"

definition parse_finite :: "bool \<Rightarrow> string \<Rightarrow> decimal option" where
  "parse_finite sg s =
     (let intpart = takeWhile is_digit s;
          r1 = dropWhile is_digit s;
          (fracpart, r2) = (case r1 of
                              [] \<Rightarrow> ([], [])
                            | c # t \<Rightarrow> if c = CHR ''.'' then (takeWhile is_digit t, dropWhile is_digit t)
                                       else ([], r1));
          ex = (case r2 of
                  [] \<Rightarrow> Some 0
                | c # t \<Rightarrow> if to_lower c = CHR ''e'' then parse_exponent t else None)
      in if intpart = [] \<and> fracpart = [] then None
         else (case ex of
                 None \<Rightarrow> None
               | Some x \<Rightarrow> Some (Num sg (int_of_digits (intpart @ fracpart)) (x - int (length fracpart)))))"

definition parse_special :: "bool \<Rightarrow> string \<Rightarrow> decimal option" where
  "parse_special sg s =
     (let l = map to_lower s
      in if l = ''inf'' \<or> l = ''infinity'' then Some (Infinity sg)
         else if take 3 l = ''nan'' \<and> list_all is_digit (drop 3 s)
           then Some (NaN sg False (int_of_digits (drop 3 s)))
         else if take 4 l = ''snan'' \<and> list_all is_digit (drop 4 s)
           then Some (NaN sg True (int_of_digits (drop 4 s)))
         else None)"

text \<open>\<^verbatim>\<open>Decimal(value)\<close> for a string: surrounding whitespace and all underscores are
  removed, then the text must be a numeric string; otherwise \<^verbatim>\<open>InvalidOperation\<close> is
  raised. The conversion is exact.\<close>

definition decimal_of_string :: "string \<Rightarrow> error + decimal" where
  "decimal_of_string v =
     (case split_sign (py_remove CHR ''_'' (py_strip v)) of (sg, r) \<Rightarrow>
        (case parse_finite sg r of
           Some d \<Rightarrow> Inr d
         | None \<Rightarrow> (case parse_special sg r of
                       Some d \<Rightarrow> Inr d
                     | None \<Rightarrow> Inl InvalidOperation)))"

subsection \<open>String of a Decimal\<close>

definition sign_str :: "bool \<Rightarrow> string" where
  "sign_str s = (if s then ''-'' else [])"

text \<open>\<^verbatim>\<open>"%+d" % n\<close>\<close>

definition fmt_plus_d :: "int \<Rightarrow> string" where
  "fmt_plus_d n = (if n < 0 then ''-'' else ''+'') @ digits_of (nat \<bar>n\<bar>)"

text \<open>\<^verbatim>\<open>__str__\<close>: scientific notation, without an exponent when the exponent is at
  most 0 and the number has fewer than six leading zeros after the point.\<close>

fun str_decimal :: "decimal \<Rightarrow> string" where
  "str_decimal (Infinity s) = sign_str s @ ''Infinity''"
| "str_decimal (NaN s sig p) =
     sign_str s @ (if sig then ''sNaN'' else ''NaN'') @ (if p = 0 then [] else digits_of p)"
| "str_decimal (Num s c e) =
     (let ds = digits_of c;
          leftdigits = e + int (length ds);
          dotplace = (if e \<le> 0 \<and> leftdigits > - 6 then leftdigits else 1);
          intpart = (if dotplace \<le> 0 then ''0''
                     else if dotplace \<ge> int (length ds)
                       then ds @ replicate (nat (dotplace - int (length ds))) CHR ''0''
                     else take (nat dotplace) ds);
          fracpart = (if dotplace \<le> 0 then ''.'' @ replicate (nat (- dotplace)) CHR ''0'' @ ds
                      else if dotplace \<ge> int (length ds) then []
                      else ''.'' @ drop (nat dotplace) ds);
          ex = (if leftdigits = dotplace then [] else ''E'' @ fmt_plus_d (leftdigits - dotplace))
      in sign_str s @ intpart @ fracpart @ ex)"

section \<open>The program\<close>

text \<open>
  The log file and the console are modelled as lists, the log as pairs of a level and a
  message, the console as printed lines. A message records which \<^verbatim>\<open>logging\<close> or
  \<^verbatim>\<open>print\<close> call produced it and the values formatted into it; colour codes,
  centring and the layout of the text are left out.
\<close>

datatype level = INFO | ERROR

datatype message =
    RequestFailed
  | PriceElementMissing
  | UnableToParseFloat string error
  | TargetElementNotFound
  | UnableToParsePrice string error
  | NegativeEpsOrGrowth
  | MissingData
  | JsonReadError
  | NoTickers
  | ProcessingTickers nat
  | PriceNotRetrieved string
  | PriceNotANumber string
  | TickerError string error
  | UnexpectedError error

datatype printed =
    Banner
  | Processing string
  | Report string decimal decimal decimal string
  | WorthHeader
  | WorthTicker string
  | NoneFound

text \<open>
  The pages the program requests and the four CSS selectors it applies to them. A page is
  modelled by what \<^verbatim>\<open>select_one(selector)\<close> finds in it: no element, or the text of
  the first matching element. The network is an oracle: the \<open>n\<close>-th request of the run for
  a URL gives a page or fails.
\<close>

datatype url = QuotePage string | AnalysisPage string | BondPage

datatype selector = PriceSelector | EpsSelector | GrowthSelector | BondSelector

type_synonym page = "selector \<Rightarrow> string option"

datatype json = JNull | JArray "string list" | JUnsized

datatype file_state = Missing | Content string

record world =
  respond :: "nat \<Rightarrow> url \<Rightarrow> page option"
  tickers_json :: file_state
  json_decode :: "string \<Rightarrow> json option"

record state =
  log :: "(level \<times> message) list"
  out :: "printed list"
  requests :: nat
  worth_buying :: "string list"

definition logging :: "level \<Rightarrow> message \<Rightarrow> state \<Rightarrow> state" where
  "logging l m st = st\<lparr>log := log st @ [(l, m)]\<rparr>"

definition print :: "printed \<Rightarrow> state \<Rightarrow> state" where
  "print x st = st\<lparr>out := out st @ [x]\<rparr>"

text \<open>Sequencing of two steps that may raise\<close>

definition bind_err :: "error + 'a \<Rightarrow> ('a \<Rightarrow> error + 'b) \<Rightarrow> error + 'b" where
  "bind_err m f = (case m of Inl e \<Rightarrow> Inl e | Inr x \<Rightarrow> f x)"

text \<open>The exceptions that the two parsers catch: \<^verbatim>\<open>except (ValueError, InvalidOperation)\<close>\<close>

definition caught :: "error \<Rightarrow> bool" where
  "caught e = (e = ValueError \<or> e = InvalidOperation)"

definition safe_request :: "world \<Rightarrow> url \<Rightarrow> state \<Rightarrow> page option \<times> state" where
  "safe_request w u st =
     (let st' = st\<lparr>requests := requests st + 1\<rparr>
      in case respond w (requests st) u of
           Some p \<Rightarrow> (Some p, st')
         | None \<Rightarrow> (None, logging ERROR RequestFailed st'))"

text \<open>The argument of \<^verbatim>\<open>parse_stock_price\<close> is a text, or a \<^verbatim>\<open>Decimal\<close> that is
  first turned into its string.\<close>

datatype price_arg = Text string | Dec decimal

definition parse_stock_price :: "price_arg \<Rightarrow> state \<Rightarrow> (error + decimal option) \<times> state" where
  "parse_stock_price a st =
     (let price_str = (case a of Dec d \<Rightarrow> str_decimal d | Text s \<Rightarrow> s)
      in case decimal_of_string (py_strip (py_remove CHR '','' price_str)) of
           Inr d \<Rightarrow> (Inr (Some d), st)
         | Inl e \<Rightarrow> if caught e then (Inr None, logging ERROR (UnableToParsePrice price_str e) st)
                    else (Inl e, st))"

definition parse_float :: "string \<Rightarrow> state \<Rightarrow> (error + decimal option) \<times> state" where
  "parse_float v st =
     (case bind_err (decimal_of_string (py_strip_chars ''%'' (py_remove CHR '','' v)))
             (\<lambda>d. dec_div d (decimal_of_int 100)) of
        Inr q \<Rightarrow> (Inr (Some q), st)
      | Inl e \<Rightarrow> if caught e then (Inr None, logging ERROR (UnableToParseFloat v e) st)
                 else (Inl e, st))"

definition get_stock_price :: "world \<Rightarrow> url \<Rightarrow> selector \<Rightarrow> state \<Rightarrow> (error + decimal option) \<times> state" where
  "get_stock_price w u sel st =
     (case safe_request w u st of
        (None, st') \<Rightarrow> (Inr None, st')
      | (Some p, st') \<Rightarrow>
          (case p sel of
             None \<Rightarrow> (Inr None, logging ERROR PriceElementMissing st')
           | Some t \<Rightarrow> if t \<noteq> [] then parse_stock_price (Text t) st'
                       else (Inr None, logging ERROR PriceElementMissing st')))"

definition get_financial_data :: "world \<Rightarrow> url \<Rightarrow> selector \<Rightarrow> state \<Rightarrow> (error + decimal option) \<times> state" where
  "get_financial_data w u sel st =
     (case safe_request w u st of
        (None, st') \<Rightarrow> (Inr None, st')
      | (Some p, st') \<Rightarrow>
          (case p sel of
             None \<Rightarrow> (Inr None, logging ERROR TargetElementNotFound st')
           | Some t \<Rightarrow> parse_float t st'))"

text \<open>\<^verbatim>\<open>x <= 0\<close> for an argument that is \<^verbatim>\<open>None\<close> or a \<^verbatim>\<open>Decimal\<close>\<close>

definition le_zero :: "decimal option \<Rightarrow> error + bool" where
  "le_zero x = (case x of None \<Rightarrow> Inl TypeError | Some d \<Rightarrow> dec_le d (decimal_of_int 0))"

text \<open>The expression \<^verbatim>\<open>(eps * (seven + (g * one_hundred)) * four_point_four) / y\<close>, in
  Python's order of evaluation.\<close>

definition graham_formula :: "decimal \<Rightarrow> decimal \<Rightarrow> decimal \<Rightarrow> error + decimal" where
  "graham_formula eps g y =
     bind_err (dec_mul g (decimal_of_int 100)) (\<lambda>a.
     bind_err (dec_add (decimal_of_int 7) a) (\<lambda>b.
     bind_err (dec_mul eps b) (\<lambda>c.
     bind_err (dec_mul c (Num False 44 (- 1))) (\<lambda>d.
     dec_div d y))))"

definition calculate_intrinsic_value ::
  "decimal option \<Rightarrow> decimal option \<Rightarrow> decimal option \<Rightarrow> state \<Rightarrow> (error + decimal option) \<times> state" where
  "calculate_intrinsic_value eps g y st =
     (case le_zero eps of
        Inl e \<Rightarrow> (Inl e, st)
      | Inr True \<Rightarrow> (Inr None, logging INFO NegativeEpsOrGrowth st)
      | Inr False \<Rightarrow>
          (case le_zero g of
             Inl e \<Rightarrow> (Inl e, st)
           | Inr True \<Rightarrow> (Inr None, logging INFO NegativeEpsOrGrowth st)
           | Inr False \<Rightarrow>
               (case (eps, g, y) of
                  (Some eps', Some g', Some y') \<Rightarrow>
                    (case graham_formula eps' g' y' of
                       Inl e \<Rightarrow> (Inl e, st)
                     | Inr v \<Rightarrow> (Inr (Some v), st))
                | _ \<Rightarrow> (Inr None, logging ERROR MissingData st))))"

definition read_tickers_from_json :: "world \<Rightarrow> state \<Rightarrow> json option \<times> state" where
  "read_tickers_from_json w st =
     (case tickers_json w of
        Missing \<Rightarrow> (None, logging ERROR JsonReadError st)
      | Content c \<Rightarrow>
          (case (if c = [] then None else json_decode w c) of
             None \<Rightarrow> (None, logging ERROR JsonReadError st)
           | Some j \<Rightarrow> (Some j, st)))"

text \<open>The last step for one ticker (lines 169 to 176 of \<^verbatim>\<open>main\<close>): the margin of
  safety, the comparison with the price, the printed line and the list of tickers worth
  buying.\<close>

definition recommend :: "string \<Rightarrow> decimal \<Rightarrow> decimal \<Rightarrow> state \<Rightarrow> (error + unit) \<times> state" where
  "recommend ticker stock_price intrinsic_value st =
     (case dec_mul intrinsic_value (Num False 8 (- 1)) of
        Inl e \<Rightarrow> (Inl e, st)
      | Inr margin_of_safety_value \<Rightarrow>
          (case dec_lt stock_price margin_of_safety_value of
             Inl e \<Rightarrow> (Inl e, st)
           | Inr is_worth_buying \<Rightarrow>
               (let recommendation = (if is_worth_buying then ''Buy'' else ''Don't Buy'');
                    st' = print (Report ticker stock_price intrinsic_value margin_of_safety_value
                                  recommendation) st
                in (Inr (), if is_worth_buying
                            then st'\<lparr>worth_buying := worth_buying st' @ [ticker]\<rparr> else st'))))"

text \<open>The body of the \<^verbatim>\<open>try\<close> block for one ticker. A \<^verbatim>\<open>continue\<close> ends it with
  \<open>Inr ()\<close>, an exception with \<open>Inl\<close>.\<close>

definition ticker_body :: "world \<Rightarrow> string \<Rightarrow> state \<Rightarrow> (error + unit) \<times> state" where
  "ticker_body w ticker st0 =
     (case get_stock_price w (QuotePage ticker) PriceSelector (print (Processing ticker) st0) of
        (Inl e, st1) \<Rightarrow> (Inl e, st1)
      | (Inr None, st1) \<Rightarrow> (Inr (), logging ERROR (PriceNotRetrieved ticker) st1)
      | (Inr (Some p), st1) \<Rightarrow>
     (case parse_stock_price (Dec p) st1 of
        (Inl e, st2) \<Rightarrow> (Inl e, st2)
      | (Inr None, st2) \<Rightarrow> (Inr (), logging ERROR (PriceNotANumber ticker) st2)
      | (Inr (Some stock_price), st2) \<Rightarrow>
     (case get_financial_data w (QuotePage ticker) EpsSelector st2 of
        (Inl e, st3) \<Rightarrow> (Inl e, st3)
      | (Inr None, st3) \<Rightarrow> (Inr (), st3)
      | (Inr (Some eps), st3) \<Rightarrow>
     (case get_financial_data w (AnalysisPage ticker) GrowthSelector st3 of
        (Inl e, st4) \<Rightarrow> (Inl e, st4)
      | (Inr None, st4) \<Rightarrow> (Inr (), st4)
      | (Inr (Some g), st4) \<Rightarrow>
     (case get_financial_data w BondPage BondSelector st4 of
        (Inl e, st5) \<Rightarrow> (Inl e, st5)
      | (Inr None, st5) \<Rightarrow> (Inr (), st5)
      | (Inr (Some y), st5) \<Rightarrow>
     (case calculate_intrinsic_value (Some eps) (Some g) (Some y) st5 of
        (Inl e, st6) \<Rightarrow> (Inl e, st6)
      | (Inr None, st6) \<Rightarrow> (Inr (), st6)
      | (Inr (Some intrinsic_value), st6) \<Rightarrow> recommend ticker stock_price intrinsic_value st6))))))"

text \<open>One turn of the loop: \<^verbatim>\<open>except Exception\<close> logs the error and the loop goes on.\<close>

definition process_ticker :: "world \<Rightarrow> string \<Rightarrow> state \<Rightarrow> state" where
  "process_ticker w ticker st =
     (case ticker_body w ticker st of
        (Inl e, st') \<Rightarrow> logging ERROR (TickerError ticker e) st'
      | (Inr u, st') \<Rightarrow> st')"

fun process_tickers :: "world \<Rightarrow> string list \<Rightarrow> state \<Rightarrow> state" where
  "process_tickers w [] st = st"
| "process_tickers w (ticker # tickers) st = process_tickers w tickers (process_ticker w ticker st)"

definition print_summary :: "state \<Rightarrow> state" where
  "print_summary st =
     (if worth_buying st \<noteq> []
      then st\<lparr>out := out st @ [WorthHeader] @ map WorthTicker (worth_buying st)\<rparr>
      else print NoneFound st)"

definition initial :: state where
  "initial = \<lparr>log = [], out = [], requests = 0, worth_buying = []\<rparr>"

definition main :: "world \<Rightarrow> state" where
  "main w =
     (case read_tickers_from_json w (print Banner initial) of
        (None, st) \<Rightarrow> logging ERROR NoTickers st
      | (Some JNull, st) \<Rightarrow> logging ERROR NoTickers st
      | (Some JUnsized, st) \<Rightarrow> logging ERROR (UnexpectedError TypeError) st
      | (Some (JArray tickers), st) \<Rightarrow>
          print_summary (process_tickers w tickers (logging INFO (ProcessingTickers (length tickers)) st)))"

section \<open>Numeric values\<close>

text \<open>The rational number that a finite decimal stands for.\<close>

definition val :: "decimal \<Rightarrow> rat" where
  "val d = (case d of Num s c e \<Rightarrow> (if s then - 1 else 1) * of_nat c * 10 powi e | _ \<Rightarrow> 0)"

text \<open>The numeric order on the decimals that are numbers: finite values by their rational
  value, with the two infinities below and above them.\<close>

fun num_less :: "decimal \<Rightarrow> decimal \<Rightarrow> bool" where
  "num_less (Num s c e) (Num t d f) = (val (Num s c e) < val (Num t d f))"
| "num_less (Infinity s) (Infinity t) = (s \<and> \<not> t)"
| "num_less (Infinity s) (Num t d f) = s"
| "num_less (Num s c e) (Infinity t) = (\<not> t)"
| "num_less a b = False"

fun num_le :: "decimal \<Rightarrow> decimal \<Rightarrow> bool" where
  "num_le (Num s c e) (Num t d f) = (val (Num s c e) \<le> val (Num t d f))"
| "num_le (Infinity s) (Infinity t) = (s \<or> \<not> t)"
| "num_le (Infinity s) (Num t d f) = s"
| "num_le (Num s c e) (Infinity t) = (\<not> t)"
| "num_le a b = False"

text \<open>The lines \<^verbatim>\<open>Processing {ticker}...\<close> among the printed lines\<close>

definition is_processing :: "printed \<Rightarrow> bool" where
  "is_processing x = (case x of Processing t \<Rightarrow> True | _ \<Rightarrow> False)"

text \<open>
  A plain decimal numeral, in the words of the specification of the price parser: an
  optional sign, then digits with an optional decimal point, and at least one digit. Its
  numeric value is the integer part plus the fractional part.
\<close>

definition plain_decimal :: "string \<Rightarrow> rat option" where
  "plain_decimal s =
     (case split_sign s of (neg, r) \<Rightarrow>
        (let ip = takeWhile is_digit r;
             rest = dropWhile is_digit r;
             sign = (if neg then - 1 else 1)
         in case rest of
              [] \<Rightarrow> if ip = [] then None else Some (sign * of_nat (int_of_digits ip))
            | c # fp \<Rightarrow>
                if c = CHR ''.'' \<and> list_all is_digit fp \<and> (ip \<noteq> [] \<or> fp \<noteq> [])
                then Some (sign * (of_nat (int_of_digits ip) + of_nat (int_of_digits fp) / 10 ^ length fp))
                else None))"

definition numeral_char :: "char \<Rightarrow> bool" where
  "numeral_char c = (is_digit c \<or> c = CHR ''.'' \<or> c = CHR ''-'' \<or> c = CHR ''+'')"

text \<open>The characters that occur in the string of a Decimal\<close>

definition str_char :: "char \<Rightarrow> bool" where
  "str_char c = (numeral_char c \<or> c \<in> set ''EInfinityNaNs'')"

section \<open>Comparisons\<close>

lemma val_aligned:
  assumes h: "ex \<le> e"
  shows "of_int ((if s then - 1 else 1) * int c * 10 ^ nat (e - ex)) * 10 powi ex = val (Num s c e)"
proof -
  have a: "(10::rat) ^ nat (e - ex) = 10 powi (e - ex)"
    using h by (simp add: power_int_def)
  have b: "(10::rat) powi (e - ex) * 10 powi ex = 10 powi e"
    by (simp add: power_int_add [symmetric])
  have "of_int ((if s then - 1 else 1) * int c * 10 ^ nat (e - ex)) * 10 powi ex
        = (if s then - 1 else 1) * of_nat c * ((10::rat) powi (e - ex) * 10 powi ex)"
    by (simp add: a)
  then show ?thesis by (simp add: b val_def)
qed


lemma dec_cmp_le: "(dec_cmp (Num s c e) (Num t d f) \<le> 0) = (val (Num s c e) \<le> val (Num t d f))"
proof -
  define ex where "ex = min e f"
  define x where "x = (if s then - 1 else 1) * int c * 10 ^ nat (e - ex)"
  define y where "y = (if t then - 1 else 1) * int d * 10 ^ nat (f - ex)"
  have a: "val (Num s c e) = of_int x * 10 powi ex" unfolding x_def by (rule val_aligned [symmetric]) (simp add: ex_def)
  have b: "val (Num t d f) = of_int y * 10 powi ex" unfolding y_def by (rule val_aligned [symmetric]) (simp add: ex_def)
  have p: "(0::rat) < 10 powi ex" by simp
  have "(val (Num s c e) \<le> val (Num t d f)) = (x \<le> y)"
    unfolding a b using mult_le_cancel_right_pos [OF p, of "of_int x" "of_int y"] by simp
  moreover have "(dec_cmp (Num s c e) (Num t d f) \<le> 0) = (x \<le> y)"
    by (simp add: Let_def sign_cmp_def x_def y_def ex_def)
  ultimately show ?thesis by simp
qed


lemma dec_le_num: "\<not> is_nan a \<Longrightarrow> \<not> is_nan b \<Longrightarrow> dec_le a b = Inr (num_le a b)"
  by (cases a; cases b) (simp_all add: dec_le_def dec_cmp_le sign_cmp_def del: dec_cmp.simps(1))

lemma le_zero_num: "\<not> is_nan a \<Longrightarrow> le_zero (Some a) = Inr (num_le a (decimal_of_int 0))"
  by (simp add: le_zero_def dec_le_num decimal_of_int_def)



text \<open>
  Claim C5. When the ticker file is missing or empty, the run logs two errors, makes no
  request, and prints nothing after the banner: neither the list of tickers worth buying
  nor the message that none was found.
\<close>

theorem C5_no_ticker_file:
  assumes "tickers_json w = Missing \<or> tickers_json w = Content []"
  shows "main w = \<lparr>log = [(ERROR, JsonReadError), (ERROR, NoTickers)], out = [Banner],
                    requests = 0, worth_buying = []\<rparr>"
  using assms
  by (auto simp: main_def read_tickers_from_json_def logging_def print_def initial_def)

theorem C5_witness:
  "(tickers_json \<lparr>respond = (\<lambda>n u. None), tickers_json = Content [], json_decode = (\<lambda>s. Some (JArray [''AAPL'']))\<rparr> = Missing
     \<or> tickers_json \<lparr>respond = (\<lambda>n u. None), tickers_json = Content [], json_decode = (\<lambda>s. Some (JArray [''AAPL'']))\<rparr> = Content [])
   \<and> main \<lparr>respond = (\<lambda>n u. None), tickers_json = Content [], json_decode = (\<lambda>s. Some (JArray [''AAPL'']))\<rparr>
       = \<lparr>log = [(ERROR, JsonReadError), (ERROR, NoTickers)], out = [Banner], requests = 0, worth_buying = []\<rparr>"
  using C5_no_ticker_file [of "\<lparr>respond = (\<lambda>n u. None), tickers_json = Content [], json_decode = (\<lambda>s. Some (JArray [''AAPL'']))\<rparr>"]
  by simp



section \<open>The loop over the tickers\<close>

lemma num_not_le: "\<not> is_nan a \<Longrightarrow> \<not> is_nan b \<Longrightarrow> (\<not> num_le a b) = num_less b a"
  by (cases a; cases b) auto

lemma le_zero_False:
  assumes "le_zero (Some a) = Inr False"
  shows "num_less (decimal_of_int 0) a"
proof -
  have n: "\<not> is_nan a"
    using assms by (auto simp: le_zero_def dec_le_def split: if_splits)
  have "\<not> num_le a (decimal_of_int 0)"
    using assms n by (simp add: le_zero_num)
  then show ?thesis
    using n by (simp add: num_not_le decimal_of_int_def)
qed

lemma civ_Some:
  assumes "calculate_intrinsic_value (Some eps) (Some g) (Some y) st = (Inr (Some v), st')"
  shows "st' = st \<and> num_less (decimal_of_int 0) eps \<and> num_less (decimal_of_int 0) g"
proof -
  have a: "le_zero (Some eps) = Inr False"
    using assms by (auto simp: calculate_intrinsic_value_def logging_def split: sum.splits bool.splits if_splits)
  have b: "le_zero (Some g) = Inr False"
    using assms a by (auto simp: calculate_intrinsic_value_def logging_def split: sum.splits bool.splits if_splits)
  have c: "st' = st"
    using assms a b by (auto simp: calculate_intrinsic_value_def split: sum.splits)
  show ?thesis using a b c by (simp add: le_zero_False)
qed

lemma recommend_out:
  "recommend t price v st = (r, st') \<Longrightarrow>
     (\<exists>m rec. out st' = out st @ [Report t price v m rec]) \<or> (out st' = out st \<and> worth_buying st' = worth_buying st)"
  by (auto simp: recommend_def print_def Let_def split: sum.splits if_splits)

lemma parse_stock_price_out: "parse_stock_price a st = (r, st') \<Longrightarrow> out st' = out st \<and> worth_buying st' = worth_buying st"
  by (auto simp: parse_stock_price_def logging_def Let_def split: sum.splits if_splits)

lemma parse_float_out: "parse_float a st = (r, st') \<Longrightarrow> out st' = out st \<and> worth_buying st' = worth_buying st"
  by (auto simp: parse_float_def logging_def split: sum.splits if_splits)

lemma safe_request_out: "safe_request w u st = (r, st') \<Longrightarrow> out st' = out st \<and> worth_buying st' = worth_buying st"
  by (auto simp: safe_request_def logging_def Let_def split: option.splits)

lemma get_stock_price_out: "get_stock_price w u sel st = (r, st') \<Longrightarrow> out st' = out st \<and> worth_buying st' = worth_buying st"
  by (auto simp: get_stock_price_def logging_def split: prod.splits option.splits if_splits
      dest!: safe_request_out parse_stock_price_out)

lemma get_financial_data_out: "get_financial_data w u sel st = (r, st') \<Longrightarrow> out st' = out st \<and> worth_buying st' = worth_buying st"
  by (auto simp: get_financial_data_def logging_def split: prod.splits option.splits if_splits
      dest!: safe_request_out parse_float_out)

lemma civ_out: "calculate_intrinsic_value a b c st = (r, st') \<Longrightarrow> out st' = out st \<and> worth_buying st' = worth_buying st"
  by (auto simp: calculate_intrinsic_value_def logging_def split: sum.splits bool.splits option.splits if_splits)


lemma ticker_body_cases:
  assumes "ticker_body w t st = (r, st')"
  shows "(\<exists>p st1 price st2 eps st3 g st4 y st5 v m rec.
            get_stock_price w (QuotePage t) PriceSelector (print (Processing t) st) = (Inr (Some p), st1)
          \<and> parse_stock_price (Dec p) st1 = (Inr (Some price), st2)
          \<and> get_financial_data w (QuotePage t) EpsSelector st2 = (Inr (Some eps), st3)
          \<and> get_financial_data w (AnalysisPage t) GrowthSelector st3 = (Inr (Some g), st4)
          \<and> get_financial_data w BondPage BondSelector st4 = (Inr (Some y), st5)
          \<and> num_less (decimal_of_int 0) eps \<and> num_less (decimal_of_int 0) g
          \<and> calculate_intrinsic_value (Some eps) (Some g) (Some y) st5 = (Inr (Some v), st5)
          \<and> out st' = out st @ [Processing t, Report t price v m rec])
       \<or> (out st' = out st @ [Processing t] \<and> worth_buying st' = worth_buying st)"
proof -
  let ?s0 = "print (Processing t) st"
  have o0: "out ?s0 = out st @ [Processing t]" "worth_buying ?s0 = worth_buying st"
    by (simp_all add: print_def)
  obtain r1 st1 where s1: "get_stock_price w (QuotePage t) PriceSelector ?s0 = (r1, st1)"
    by (cases "get_stock_price w (QuotePage t) PriceSelector ?s0") auto
  note o1 = get_stock_price_out [OF s1]
  show ?thesis
  proof (cases r1)
    case (Inl e)
    then show ?thesis using assms s1 o0 o1 by (simp add: ticker_body_def)
  next
    case (Inr x1)
    show ?thesis
    proof (cases x1)
      case None
      then show ?thesis using assms s1 o0 o1 Inr by (auto simp: ticker_body_def logging_def)
    next
      case (Some p)
      obtain r2 st2 where s2: "parse_stock_price (Dec p) st1 = (r2, st2)"
        by (cases "parse_stock_price (Dec p) st1") auto
      note o2 = parse_stock_price_out [OF s2]
      obtain r3 st3 where s3: "get_financial_data w (QuotePage t) EpsSelector st2 = (r3, st3)"
        by (cases "get_financial_data w (QuotePage t) EpsSelector st2") auto
      note o3 = get_financial_data_out [OF s3]
      obtain r4 st4 where s4: "get_financial_data w (AnalysisPage t) GrowthSelector st3 = (r4, st4)"
        by (cases "get_financial_data w (AnalysisPage t) GrowthSelector st3") auto
      note o4 = get_financial_data_out [OF s4]
      obtain r5 st5 where s5: "get_financial_data w BondPage BondSelector st4 = (r5, st5)"
        by (cases "get_financial_data w BondPage BondSelector st4") auto
      note o5 = get_financial_data_out [OF s5]
      have skip: "out st5 = out st @ [Processing t]" "out st4 = out st @ [Processing t]"
        "out st3 = out st @ [Processing t]" "out st2 = out st @ [Processing t]"
        "out st1 = out st @ [Processing t]"
        "worth_buying st5 = worth_buying st" "worth_buying st4 = worth_buying st"
        "worth_buying st3 = worth_buying st" "worth_buying st2 = worth_buying st"
        "worth_buying st1 = worth_buying st"
        using o0 o1 o2 o3 o4 o5 by simp_all
      show ?thesis
      proof (cases "\<exists>price eps g y. r2 = Inr (Some price) \<and> r3 = Inr (Some eps) \<and> r4 = Inr (Some g) \<and> r5 = Inr (Some y)")
        case False
        then show ?thesis
          using assms s1 s2 s3 s4 s5 Inr Some skip
          by (auto simp: ticker_body_def logging_def split: sum.splits option.splits)
      next
        case True
        then obtain price eps g y where q: "r2 = Inr (Some price)" "r3 = Inr (Some eps)"
          "r4 = Inr (Some g)" "r5 = Inr (Some y)" by blast
        obtain r6 st6 where s6: "calculate_intrinsic_value (Some eps) (Some g) (Some y) st5 = (r6, st6)"
          by (cases "calculate_intrinsic_value (Some eps) (Some g) (Some y) st5") auto
        note o6 = civ_out [OF s6]
        show ?thesis
        proof (cases "\<exists>v. r6 = Inr (Some v)")
          case False
          then show ?thesis
            using assms s1 s2 s3 s4 s5 s6 Inr Some skip q o6
            by (auto simp: ticker_body_def split: sum.splits option.splits)
        next
          case True
          then obtain v where v: "r6 = Inr (Some v)" by blast
          from civ_Some [OF s6 [unfolded v]]
          have p: "st6 = st5" "num_less (decimal_of_int 0) eps" "num_less (decimal_of_int 0) g"
            by simp_all
          have rb: "recommend t price v st5 = (r, st')"
            using assms s1 s2 s3 s4 s5 s6 Inr Some q v p by (simp add: ticker_body_def)
          from recommend_out [OF rb] show ?thesis
          proof
            assume "\<exists>m rec. out st' = out st5 @ [Report t price v m rec]"
            then obtain m rec where "out st' = out st5 @ [Report t price v m rec]" by blast
            then have "out st' = out st @ [Processing t, Report t price v m rec]"
              using skip by simp
            then show ?thesis
              using s1 s2 s3 s4 s5 s6 Inr Some q v p by blast
          next
            assume "out st' = out st5 \<and> worth_buying st' = worth_buying st5"
            then show ?thesis using skip by simp
          qed
        qed
      qed
    qed
  qed
qed


lemma process_ticker_out:
  "(\<exists>price v m rec. out (process_ticker w t st) = out st @ [Processing t, Report t price v m rec])
   \<or> out (process_ticker w t st) = out st @ [Processing t]"
proof -
  obtain r st' where b: "ticker_body w t st = (r, st')"
    by (cases "ticker_body w t st") auto
  have "out (process_ticker w t st) = out st'"
    using b by (cases r) (simp_all add: process_ticker_def logging_def)
  then show ?thesis using ticker_body_cases [OF b] by auto
qed

lemma process_tickers_lines:
  "filter is_processing (out (process_tickers w ts st)) = filter is_processing (out st) @ map Processing ts"
proof (induction ts arbitrary: st)
  case Nil
  then show ?case by simp
next
  case (Cons t ts)
  have "filter is_processing (out (process_ticker w t st)) = filter is_processing (out st) @ [Processing t]"
    using process_ticker_out [of w t st] by (auto simp: is_processing_def)
  then show ?case using Cons.IH [of "process_ticker w t st"] by simp
qed

text \<open>
  Claim C4. One turn of the loop prints the ticker's line and then either nothing more,
  leaving the list of tickers worth buying as it was, or exactly one report; and a report
  is printed only when the price, the EPS, the growth and the yield were all fetched and
  parsed, the EPS and the growth are positive, and the valuation returned a value. The
  loop goes on after every ticker, whatever happened to the one before: each ticker of the
  list gets its line, in order.
\<close>

theorem C4_result_needs_complete_quote:
  "((\<exists>p st1 price st2 eps st3 g st4 y st5 v m rec.
        get_stock_price w (QuotePage t) PriceSelector (print (Processing t) st) = (Inr (Some p), st1)
      \<and> parse_stock_price (Dec p) st1 = (Inr (Some price), st2)
      \<and> get_financial_data w (QuotePage t) EpsSelector st2 = (Inr (Some eps), st3)
      \<and> get_financial_data w (AnalysisPage t) GrowthSelector st3 = (Inr (Some g), st4)
      \<and> get_financial_data w BondPage BondSelector st4 = (Inr (Some y), st5)
      \<and> num_less (decimal_of_int 0) eps \<and> num_less (decimal_of_int 0) g
      \<and> calculate_intrinsic_value (Some eps) (Some g) (Some y) st5 = (Inr (Some v), st5)
      \<and> out (process_ticker w t st) = out st @ [Processing t, Report t price v m rec])
    \<or> (out (process_ticker w t st) = out st @ [Processing t]
        \<and> worth_buying (process_ticker w t st) = worth_buying st))
   \<and> filter is_processing (out (process_tickers w ts st)) = filter is_processing (out st) @ map Processing ts"
proof -
  obtain r st' where b: "ticker_body w t st = (r, st')"
    by (cases "ticker_body w t st") auto
  have "out (process_ticker w t st) = out st' \<and> worth_buying (process_ticker w t st) = worth_buying st'"
    using b by (cases r) (simp_all add: process_ticker_def logging_def)
  then show ?thesis
    using ticker_body_cases [OF b] process_tickers_lines [of w ts st] by simp
qed

theorem C4_witness:
  "out (process_ticker \<lparr>respond = (\<lambda>n u. None), tickers_json = Missing, json_decode = (\<lambda>s. None)\<rparr> ''T'' initial)
     = [Processing ''T'']
   \<and> filter is_processing (out (process_tickers \<lparr>respond = (\<lambda>n u. None), tickers_json = Missing, json_decode = (\<lambda>s. None)\<rparr> [''T'', ''U''] initial))
     = [Processing ''T'', Processing ''U'']"
  using C4_result_needs_complete_quote [of "\<lparr>respond = (\<lambda>n u. None), tickers_json = Missing, json_decode = (\<lambda>s. None)\<rparr>" "''T''" initial "[''T'', ''U'']"]
  by (auto simp: initial_def get_stock_price_def safe_request_def print_def logging_def Let_def)

section \<open>Digits and strings\<close>

lemma is_digit_digit_char: "n < 10 \<Longrightarrow> is_digit (digit_char n)"
  by (simp add: is_digit_def digit_char_def)

lemma digit_val_digit_char: "n < 10 \<Longrightarrow> digit_val (digit_char n) = n"
  by (simp add: digit_val_def digit_char_def)

lemma digits_of_all_digits: "list_all is_digit (digits_of n)"
proof (induction n rule: digits_of.induct)
  case (1 n)
  show ?case
  proof (cases "n < 10")
    case True
    then show ?thesis by (subst digits_of.simps) (simp add: is_digit_digit_char)
  next
    case False
    then show ?thesis
      using "1.IH" by (subst digits_of.simps) (simp add: is_digit_digit_char)
  qed
qed

lemma digits_of_ne: "digits_of n \<noteq> []"
  by (subst digits_of.simps) simp

lemma int_of_digits_snoc: "int_of_digits (xs @ [c]) = 10 * int_of_digits xs + digit_val c"
  by (simp add: int_of_digits_def)

lemma int_of_digits_append:
  "int_of_digits (xs @ ys) = int_of_digits xs * 10 ^ length ys + int_of_digits ys"
proof (induction ys rule: rev_induct)
  case Nil
  then show ?case by (simp add: int_of_digits_def)
next
  case (snoc y ys)
  have "int_of_digits (xs @ ys @ [y]) = 10 * int_of_digits (xs @ ys) + digit_val y"
    using int_of_digits_snoc [of "xs @ ys" y] by simp
  then show ?case
    by (simp add: snoc.IH int_of_digits_snoc algebra_simps)
qed

lemma int_of_digits_Nil: "int_of_digits [] = 0"
  by (simp add: int_of_digits_def)

lemma int_of_digits_digits_of: "int_of_digits (digits_of n) = n"
proof (induction n rule: digits_of.induct)
  case (1 n)
  show ?case
  proof (cases "n < 10")
    case True
    then show ?thesis
      by (subst digits_of.simps) (simp add: int_of_digits_def digit_val_digit_char)
  next
    case False
    then show ?thesis
      using "1.IH" by (subst digits_of.simps) (simp add: int_of_digits_snoc digit_val_digit_char)
  qed
qed

lemma int_of_digits_zeros: "int_of_digits (replicate k CHR ''0'') = 0"
  by (induction k) (simp_all add: int_of_digits_Nil int_of_digits_snoc replicate_append_same [symmetric] digit_val_def)

lemma is_digit_zero: "is_digit CHR ''0''"
  by (simp add: is_digit_def)

lemma takeWhile_digits:
  "list_all is_digit xs \<Longrightarrow> (ys = [] \<or> \<not> is_digit (hd ys)) \<Longrightarrow> takeWhile is_digit (xs @ ys) = xs"
  by (cases ys) (auto simp: list_all_iff takeWhile_append2)

lemma dropWhile_digits:
  "list_all is_digit xs \<Longrightarrow> (ys = [] \<or> \<not> is_digit (hd ys)) \<Longrightarrow> dropWhile is_digit (xs @ ys) = ys"
  by (cases ys) (auto simp: list_all_iff dropWhile_append2)

lemma strip_with_id: "s \<noteq> [] \<Longrightarrow> \<not> P (hd s) \<Longrightarrow> \<not> P (last s) \<Longrightarrow> strip_with P s = s"
proof -
  assume a: "s \<noteq> []" "\<not> P (hd s)" "\<not> P (last s)"
  have 1: "dropWhile P s = s" using a by (cases s) auto
  have 2: "dropWhile P (rev s) = rev s" using a by (cases "rev s") (auto simp: last_rev [symmetric] hd_rev)
  show ?thesis by (simp add: strip_with_def 1 2)
qed

lemma strip_with_Nil: "strip_with P [] = []"
  by (simp add: strip_with_def)

lemma strip_with_pad:
  assumes "list_all P ws1" "list_all P ws2" "s \<noteq> []" "\<not> P (hd s)" "\<not> P (last s)"
  shows "strip_with P (ws1 @ s @ ws2) = s"
proof -
  have 1: "dropWhile P (ws1 @ s @ ws2) = s @ ws2"
    using assms by (cases s) (auto simp: list_all_iff dropWhile_append2)
  have "rev s \<noteq> []" "\<not> P (hd (rev s))"
    using assms by (simp_all add: hd_rev)
  then have "dropWhile P (rev s) = rev s" by (cases "rev s") auto
  moreover have "dropWhile P (rev ws2 @ rev s) = dropWhile P (rev s)"
    using assms(2) by (intro dropWhile_append2) (simp add: list_all_iff)
  ultimately have 2: "dropWhile P (rev ws2 @ rev s) = rev s" by simp
  show ?thesis by (simp add: strip_with_def 1 2)
qed

lemma py_remove_id: "c \<notin> set s \<Longrightarrow> py_remove c s = s"
  by (auto simp: py_remove_def filter_id_conv)

lemma py_remove_append: "py_remove c (xs @ ys) = py_remove c xs @ py_remove c ys"
  by (simp add: py_remove_def)

lemma not_digit_chars:
  "\<not> is_digit CHR ''.''" "\<not> is_digit CHR ''E''" "\<not> is_digit CHR ''-''" "\<not> is_digit CHR ''+''"
  by (simp_all add: is_digit_def)

lemma char_of_101: "char_of (101::nat) = CHR ''e''"
  by (rule injD [OF inj_of_char [where ?'a = nat]]) simp

lemma to_lower_E: "to_lower CHR ''E'' = CHR ''e''"
  by (simp add: to_lower_def char_of_101)

lemma parse_exponent_fmt: "parse_exponent (fmt_plus_d n) = Some n"
  by (simp add: parse_exponent_def fmt_plus_d_def digits_of_ne digits_of_all_digits int_of_digits_digits_of)

lemma parse_finite_canonical:
  assumes ip: "list_all is_digit ip" and fp: "list_all is_digit fp"
    and ne: "ip \<noteq> [] \<or> fp \<noteq> []" and dot: "\<not> hasdot \<longrightarrow> fp = []"
  shows "parse_finite sg (ip @ (if hasdot then CHR ''.'' # fp else [])
                             @ (case x of None \<Rightarrow> [] | Some n \<Rightarrow> CHR ''E'' # fmt_plus_d n))
         = Some (Num sg (int_of_digits (ip @ fp)) ((case x of None \<Rightarrow> 0 | Some n \<Rightarrow> n) - int (length fp)))"
proof -
  define ex where "ex = (case x of None \<Rightarrow> [] | Some n \<Rightarrow> CHR ''E'' # fmt_plus_d n)"
  define xv where "xv = (case x of None \<Rightarrow> 0 | Some n \<Rightarrow> n)"
  have exh: "ex = [] \<or> \<not> is_digit (hd ex)"
    by (cases x) (simp_all add: ex_def not_digit_chars)
  have exd: "ex = [] \<or> hd ex \<noteq> CHR ''.''"
    by (cases x) (simp_all add: ex_def)
  have exv: "(case ex of [] \<Rightarrow> Some 0 | c # t \<Rightarrow> if to_lower c = CHR ''e'' then parse_exponent t else None)
             = Some xv"
    by (cases x) (simp_all add: ex_def xv_def to_lower_E parse_exponent_fmt)
  have t2: "takeWhile is_digit (fp @ ex) = fp"
    by (rule takeWhile_digits [OF fp exh])
  have d2: "dropWhile is_digit (fp @ ex) = ex"
    by (rule dropWhile_digits [OF fp exh])
  have "parse_finite sg (ip @ (if hasdot then CHR ''.'' # fp else []) @ ex)
          = Some (Num sg (int_of_digits (ip @ fp)) (xv - int (length fp)))"
  proof (cases hasdot)
    case True
    have h: "CHR ''.'' # fp @ ex = [] \<or> \<not> is_digit (hd (CHR ''.'' # fp @ ex))"
      by (simp add: not_digit_chars)
    have t1: "takeWhile is_digit (ip @ CHR ''.'' # fp @ ex) = ip"
      by (rule takeWhile_digits [OF ip h])
    have d1: "dropWhile is_digit (ip @ CHR ''.'' # fp @ ex) = CHR ''.'' # fp @ ex"
      by (rule dropWhile_digits [OF ip h])
    show ?thesis
      using True ne by (simp add: parse_finite_def t1 d1 t2 d2 exv Let_def)
  next
    case False
    then have f: "fp = []" using dot by simp
    have t1: "takeWhile is_digit (ip @ ex) = ip"
      by (rule takeWhile_digits [OF ip exh])
    have d1: "dropWhile is_digit (ip @ ex) = ex"
      by (rule dropWhile_digits [OF ip exh])
    have nd: "(case ex of [] \<Rightarrow> ([], []) | c # t \<Rightarrow> if c = CHR ''.'' then (takeWhile is_digit t, dropWhile is_digit t) else ([], ex))
              = ([], ex)"
      using exd by (cases ex) simp_all
    show ?thesis
      using False ne f by (simp add: parse_finite_def t1 d1 nd exv Let_def)
  qed
  then show ?thesis by (simp add: ex_def xv_def)
qed

section \<open>The price parser\<close>

lemma numeral_char_plain:
  "numeral_char c \<Longrightarrow> \<not> is_py_space c \<and> c \<noteq> CHR ''_'' \<and> c \<noteq> CHR '',''"
  by (auto simp: numeral_char_def is_digit_def is_py_space_def)

lemma space_not_comma: "is_py_space c \<Longrightarrow> c \<noteq> CHR '',''"
  by (auto simp: is_py_space_def)

lemma split_sign_chars:
  assumes "split_sign X = (neg, r)" and "list_all numeral_char r" and "r \<noteq> []"
  shows "list_all numeral_char X \<and> X \<noteq> []"
  using assms by (cases X) (auto simp: numeral_char_def split: if_splits)

lemma plain_decimal_shape:
  assumes "plain_decimal X = Some q"
  shows "\<exists>neg ip fp hasdot.
           split_sign X = (neg, ip @ (if hasdot then CHR ''.'' # fp else []))
         \<and> list_all is_digit ip \<and> list_all is_digit fp \<and> (ip \<noteq> [] \<or> fp \<noteq> [])
         \<and> (\<not> hasdot \<longrightarrow> fp = [])
         \<and> q = (if neg then - 1 else 1) * (of_nat (int_of_digits ip) + of_nat (int_of_digits fp) / 10 ^ length fp)"
proof -
  obtain neg r where sr: "split_sign X = (neg, r)" by (cases "split_sign X") auto
  define ip where "ip = takeWhile is_digit r"
  define rest where "rest = dropWhile is_digit r"
  have r: "r = ip @ rest" by (simp add: ip_def rest_def)
  have ipd: "list_all is_digit ip"
    by (simp add: ip_def list_all_iff) (meson set_takeWhileD)
  have main: "(case rest of
                 [] \<Rightarrow> if ip = [] then None else Some ((if neg then - 1 else 1) * of_nat (int_of_digits ip))
               | c # fp \<Rightarrow>
                   if c = CHR ''.'' \<and> list_all is_digit fp \<and> (ip \<noteq> [] \<or> fp \<noteq> [])
                   then Some ((if neg then - 1 else 1) * (of_nat (int_of_digits ip) + of_nat (int_of_digits fp) / 10 ^ length fp))
                   else None) = Some q"
    using assms unfolding plain_decimal_def sr ip_def rest_def by (simp add: Let_def)
  show ?thesis
  proof (cases rest)
    case Nil
    then have "ip \<noteq> []" "q = (if neg then - 1 else 1) * of_nat (int_of_digits ip)"
      using main by (auto split: if_splits)
    then show ?thesis
      using sr r Nil ipd
      by (intro exI [of _ neg] exI [of _ ip] exI [of _ "[]"] exI [of _ False])
         (simp add: int_of_digits_Nil)
  next
    case (Cons c fp)
    then have "c = CHR ''.''" "list_all is_digit fp" "ip \<noteq> [] \<or> fp \<noteq> []"
      "q = (if neg then - 1 else 1) * (of_nat (int_of_digits ip) + of_nat (int_of_digits fp) / 10 ^ length fp)"
      using main by (auto split: if_splits)
    then show ?thesis
      using sr r Cons ipd
      by (intro exI [of _ neg] exI [of _ ip] exI [of _ fp] exI [of _ True]) simp
  qed
qed

lemma val_plain:
  "val (Num neg (int_of_digits (ip @ fp)) (0 - int (length fp)))
     = (if neg then - 1 else 1) * (of_nat (int_of_digits ip) + of_nat (int_of_digits fp) / 10 ^ length fp)"
proof -
  have p: "(10::rat) powi (- int (length fp)) = 1 / 10 ^ length fp"
    by (simp add: power_int_minus field_simps)
  show ?thesis
    by (simp add: val_def int_of_digits_append p field_simps)
qed

lemma decimal_of_plain:
  assumes "plain_decimal X = Some q"
  shows "X \<noteq> [] \<and> list_all numeral_char X \<and> (\<exists>d. decimal_of_string X = Inr d \<and> is_finite d \<and> val d = q)"
proof -
  from plain_decimal_shape [OF assms] obtain neg ip fp hasdot where
    sr: "split_sign X = (neg, ip @ (if hasdot then CHR ''.'' # fp else []))"
    and ip: "list_all is_digit ip" and fp: "list_all is_digit fp"
    and ne: "ip \<noteq> [] \<or> fp \<noteq> []" and dot: "\<not> hasdot \<longrightarrow> fp = []"
    and q: "q = (if neg then - 1 else 1) * (of_nat (int_of_digits ip) + of_nat (int_of_digits fp) / 10 ^ length fp)"
    by blast
  let ?r = "ip @ (if hasdot then CHR ''.'' # fp else [])"
  have rc: "list_all numeral_char ?r"
    using ip fp by (auto simp: list_all_iff numeral_char_def)
  have rn: "?r \<noteq> []" using ne dot by auto
  from split_sign_chars [OF sr rc rn] have X: "list_all numeral_char X" "X \<noteq> []" by simp_all
  have pl: "\<forall>c \<in> set X. \<not> is_py_space c \<and> c \<noteq> CHR ''_''"
    using X(1) numeral_char_plain by (auto simp: list_all_iff)
  have st: "py_strip X = X"
    unfolding py_strip_def using X(2) pl by (intro strip_with_id) auto
  have rm: "py_remove CHR ''_'' X = X"
    using pl by (intro py_remove_id) auto
  have pf: "parse_finite neg ?r = Some (Num neg (int_of_digits (ip @ fp)) (0 - int (length fp)))"
    using parse_finite_canonical [OF ip fp ne dot, of neg None] by simp
  have "decimal_of_string X = Inr (Num neg (int_of_digits (ip @ fp)) (0 - int (length fp)))"
    by (simp add: decimal_of_string_def st rm sr pf)
  then show ?thesis
    using X q val_plain [of neg ip fp] by simp
qed

lemma decimal_of_string_error: "decimal_of_string s = Inl e \<Longrightarrow> e = InvalidOperation"
  by (auto simp: decimal_of_string_def split: prod.splits option.splits)

text \<open>
  Claim C8. A plain decimal numeral, with thousands-separator commas anywhere in it and
  whitespace around it, is parsed to a finite decimal whose value is exactly the value of the
  numeral without the commas and the whitespace (the log is unchanged). A text that the
  Decimal constructor rejects gives \<^verbatim>\<open>None\<close> and one logged error that holds the text
  and the exception. \<^verbatim>\<open>parse_stock_price\<close> never raises, for a text or a Decimal.
\<close>

theorem C8_parse_price:
  "(list_all is_py_space ws1 \<longrightarrow> list_all is_py_space ws2 \<longrightarrow>
      plain_decimal (py_remove CHR '','' core) = Some q \<longrightarrow>
      (\<exists>d. parse_stock_price (Text (ws1 @ core @ ws2)) st = (Inr (Some d), st) \<and> is_finite d \<and> val d = q))
   \<and> (decimal_of_string (py_strip (py_remove CHR '','' t)) = Inl e \<longrightarrow>
        parse_stock_price (Text t) st = (Inr None, logging ERROR (UnableToParsePrice t e) st))
   \<and> (\<exists>r st'. parse_stock_price a st = (Inr r, st'))"
proof (intro conjI impI)
  assume w1: "list_all is_py_space ws1" and w2: "list_all is_py_space ws2"
    and pd: "plain_decimal (py_remove CHR '','' core) = Some q"
  let ?X = "py_remove CHR '','' core"
  from decimal_of_plain [OF pd] obtain d where
    X: "?X \<noteq> []" "list_all numeral_char ?X" and d: "decimal_of_string ?X = Inr d" "is_finite d" "val d = q"
    by blast
  have c1: "py_remove CHR '','' ws1 = ws1" "py_remove CHR '','' ws2 = ws2"
    using w1 w2 space_not_comma by (auto intro!: py_remove_id simp: list_all_iff)
  have rm: "py_remove CHR '','' (ws1 @ core @ ws2) = ws1 @ ?X @ ws2"
    by (simp add: py_remove_append c1)
  have h: "\<not> is_py_space (hd ?X)" "\<not> is_py_space (last ?X)"
    using X numeral_char_plain by (auto simp: list_all_iff)
  have st: "py_strip (ws1 @ ?X @ ws2) = ?X"
    unfolding py_strip_def by (rule strip_with_pad [OF w1 w2 X(1) h])
  show "\<exists>d. parse_stock_price (Text (ws1 @ core @ ws2)) st = (Inr (Some d), st) \<and> is_finite d \<and> val d = q"
    using d by (simp add: parse_stock_price_def rm st)
next
  assume "decimal_of_string (py_strip (py_remove CHR '','' t)) = Inl e"
  then show "parse_stock_price (Text t) st = (Inr None, logging ERROR (UnableToParsePrice t e) st)"
    using decimal_of_string_error [of "py_strip (py_remove CHR '','' t)" e]
    by (simp add: parse_stock_price_def caught_def)
next
  show "\<exists>r st'. parse_stock_price a st = (Inr r, st')"
    by (auto simp: parse_stock_price_def caught_def Let_def split: sum.splits dest: decimal_of_string_error)
qed


theorem C8_witness:
  "list_all is_py_space '' ''
   \<and> plain_decimal (py_remove CHR '','' ''1,234.50'') = Some (2469 / 2)
   \<and> (\<exists>d. parse_stock_price (Text '' 1,234.50 '') initial = (Inr (Some d), initial)
            \<and> is_finite d \<and> val d = 2469 / 2)
   \<and> decimal_of_string (py_strip (py_remove CHR '','' ''N/A'')) = Inl InvalidOperation
   \<and> parse_stock_price (Text ''N/A'') initial
       = (Inr None, logging ERROR (UnableToParsePrice ''N/A'' InvalidOperation) initial)
   \<and> parse_stock_price (Text ''1,234.50'') initial = (Inr (Some (Num False 123450 (- 2))), initial)"
proof -
  have h1: "list_all is_py_space '' ''"
    by (simp add: is_py_space_def)
  have h2: "plain_decimal (py_remove CHR '','' ''1,234.50'') = Some (2469 / 2)"
    by (simp add: plain_decimal_def py_remove_def is_digit_def int_of_digits_def digit_val_def Let_def)
  have h3: "decimal_of_string (py_strip (py_remove CHR '','' ''N/A'')) = Inl InvalidOperation"
    by (simp add: decimal_of_string_def py_strip_def strip_with_def is_py_space_def py_remove_def
        parse_finite_def parse_special_def is_digit_def to_lower_def Let_def)
  have h4: "parse_stock_price (Text ''1,234.50'') initial = (Inr (Some (Num False 123450 (- 2))), initial)"
    by (simp add: parse_stock_price_def decimal_of_string_def py_strip_def strip_with_def
        is_py_space_def py_remove_def parse_finite_def is_digit_def int_of_digits_def digit_val_def Let_def)
  show ?thesis
    using h1 h2 h3 h4
      C8_parse_price [of "'' ''" "'' ''" "''1,234.50''" "2469 / 2" initial "''N/A''" InvalidOperation "Text ''x''"]
    by simp
qed

end
